theory Spec2Isabelle
  imports Complex_Main
begin

section \<open>JavaScript values used by Source/Scene/Polygon.js\<close>

text \<open>
  Objects (ellipsoids, materials, primitives, the render context) are references, compared
  by identity. A JavaScript number is a real or \<open>NaN\<close>; the infinities behave under
  the comparisons of this file as very large reals do and are not told apart. A property
  that may hold \<open>undefined\<close> has an option type, \<open>None\<close> being \<open>undefined\<close>.
\<close>

type_synonym ref = nat

datatype number = Num real | NaN

text \<open>JavaScript \<open>a < b\<close> and \<open>a > b\<close> on numbers: false as soon as one side is NaN.\<close>

fun js_less :: "number \<Rightarrow> number \<Rightarrow> bool" where
  "js_less (Num x) (Num y) = (x < y)"
| "js_less _ _ = False"

definition js_greater :: "number \<Rightarrow> number \<Rightarrow> bool" where
  "js_greater a b = js_less b a"

text \<open>JavaScript \<open>a !== b\<close> where each side is a number or \<open>undefined\<close>.\<close>

fun strict_not_equals :: "number option \<Rightarrow> number option \<Rightarrow> bool" where
  "strict_not_equals None None = False"
| "strict_not_equals (Some (Num x)) (Some (Num y)) = (x \<noteq> y)"
| "strict_not_equals _ _ = True"

text \<open>\<open>function defined(value) { return typeof value !== 'undefined'; }\<close>\<close>

definition defined :: "'a option \<Rightarrow> bool" where
  "defined v = (v \<noteq> None)"

text \<open>\<open>defaultValue(a, b)\<close>: \<open>a\<close> unless it is undefined.\<close>

definition defaultValue :: "'a option \<Rightarrow> 'a \<Rightarrow> 'a" where
  "defaultValue a b = (case a of None \<Rightarrow> b | Some x \<Rightarrow> x)"

text \<open>
  Every \<open>throw\<close> of the file is a \<open>DeveloperError\<close> with a message; \<open>TypeError\<close> is what
  the engine raises on a property read of \<open>undefined\<close>. A call either returns a value or
  throws, and in both cases leaves a state behind: the state of \<open>Throws\<close> is the state at
  the moment of the throw.
\<close>

datatype error = DeveloperError string | TypeError

datatype ('r, 's) outcome = Returns 'r 's | Throws error 's

definition ConfigurationError :: error where
  "ConfigurationError = DeveloperError ''At least three positions are required.''"

definition UseAfterDestroy :: error where
  "UseAfterDestroy = DeveloperError ''This object was destroyed, i.e., destroy() was called.''"

fun is_InvariantViolation :: "error \<Rightarrow> bool" where
  "is_InvariantViolation (DeveloperError m) =
     (m = ''this.ellipsoid must be defined.'' \<or> m = ''this.material must be defined.'' \<or>
      m = ''this.granularity and scene2D/scene3D overrides must be greater than zero.'')"
| "is_InvariantViolation TypeError = False"

section \<open>The polygon object\<close>

text \<open>
  The fields of a \<open>Polygon\<close>. A field \<open>priv_x\<close> is the source's \<open>this._x\<close>, and
  \<open>show_flag\<close> is \<open>this.show\<close>. The field \<open>destroyed\<close> is not a property of the
  source object: it records that \<open>destroyObject\<close> has run on it (see below).
\<close>

record 'p polygon =
  ellipsoid :: "ref option"
  priv_ellipsoid :: "ref option"
  granularity :: number
  priv_granularity :: "number option"
  height :: number
  priv_height :: "number option"
  textureRotationAngle :: "number option"
  priv_textureRotationAngle :: "number option"
  show_flag :: bool
  material :: "ref option"
  priv_positions :: "'p list option"
  priv_polygonHierarchy :: "'p list list option"
  priv_createPrimitive :: bool
  priv_primitive :: "ref option"
  destroyed :: bool

record 'p options =
  opt_ellipsoid :: "ref option"
  opt_granularity :: "number option"
  opt_height :: "number option"
  opt_textureRotationAngle :: "number option"
  opt_show :: "bool option"
  opt_material :: "ref option"
  opt_positions :: "'p list option"
  opt_polygonHierarchy :: "'p list list option"

text \<open>\<open>defaultValue.EMPTY_OBJECT\<close>: every option undefined.\<close>

definition EMPTY_OBJECT :: "'p options" where
  "EMPTY_OBJECT =
     \<lparr> opt_ellipsoid = None, opt_granularity = None, opt_height = None,
       opt_textureRotationAngle = None, opt_show = None, opt_material = None,
       opt_positions = None, opt_polygonHierarchy = None \<rparr>"

text \<open>
  The constructor. \<open>WGS84\<close> is the object \<open>Ellipsoid.WGS84\<close>, \<open>colorMaterial\<close> the
  material object that \<open>Material.fromType(undefined, Material.ColorType)\<close> has just made
  and \<open>oneDegree\<close> the number \<open>CesiumMath.toRadians(1.0)\<close>.
\<close>

definition Polygon :: "ref \<Rightarrow> ref \<Rightarrow> number \<Rightarrow> 'p options option \<Rightarrow> 'p polygon" where
  "Polygon WGS84 colorMaterial oneDegree opts =
     (let options = defaultValue opts EMPTY_OBJECT in
      \<lparr> ellipsoid = Some (defaultValue (opt_ellipsoid options) WGS84),
        priv_ellipsoid = None,
        granularity = defaultValue (opt_granularity options) oneDegree,
        priv_granularity = None,
        height = defaultValue (opt_height options) (Num 0),
        priv_height = None,
        textureRotationAngle = opt_textureRotationAngle options,
        priv_textureRotationAngle = None,
        show_flag = defaultValue (opt_show options) True,
        material = Some (defaultValue (opt_material options) colorMaterial),
        priv_positions = opt_positions options,
        priv_polygonHierarchy = opt_polygonHierarchy options,
        priv_createPrimitive = False,
        priv_primitive = None,
        destroyed = False \<rparr>)"

definition getPositions :: "'p polygon \<Rightarrow> 'p list option" where
  "getPositions this = priv_positions this"

definition setPositions :: "'p list option \<Rightarrow> 'p polygon \<Rightarrow> (unit, 'p polygon) outcome" where
  "setPositions positions this =
     (if (case positions of None \<Rightarrow> False | Some ps \<Rightarrow> length ps < 3)
      then Throws (DeveloperError ''At least three positions are required.'') this
      else Returns ()
             (this\<lparr> priv_positions := positions,
                    priv_polygonHierarchy := None,
                    priv_createPrimitive := True \<rparr>))"

section \<open>Flattening a polygon hierarchy\<close>

text \<open>
  A node of the hierarchy has \<open>positions\<close> and, optionally, \<open>holes\<close>, a list of nodes.
\<close>

datatype 'p node = Node (positions: "'p list") (holes: "'p node list option")

text \<open>
  The queue of \<open>Core/Queue\<close> is a list: \<open>enqueue\<close> appends at the back, \<open>dequeue\<close>
  takes the front. The loop over \<open>j\<close> enqueues the nodes of \<open>hole.holes\<close> one by one.
\<close>

fun enqueue_all :: "'p node list \<Rightarrow> 'p node list \<Rightarrow> 'p node list" where
  "enqueue_all [] queue = queue"
| "enqueue_all (g # gs) queue = enqueue_all gs (queue @ [g])"

text \<open>
  The loop over \<open>i\<close>: each hole's positions are pushed onto the local array \<open>holes\<close>
  (here \<open>holes_acc\<close>) and its own holes, if it has any, are enqueued.
\<close>

fun for_each_hole ::
  "'p node list \<Rightarrow> 'p list list \<Rightarrow> 'p node list \<Rightarrow> 'p list list \<times> 'p node list" where
  "for_each_hole [] holes_acc queue = (holes_acc, queue)"
| "for_each_hole (hole # rest) holes_acc queue =
     for_each_hole rest (holes_acc @ [positions hole])
       (enqueue_all (case holes hole of None \<Rightarrow> [] | Some gs \<Rightarrow> gs) queue)"

definition grandchildren :: "'p node list \<Rightarrow> 'p node list" where
  "grandchildren cs = concat (map (\<lambda>h. case holes h of None \<Rightarrow> [] | Some gs \<Rightarrow> gs) cs)"

lemma enqueue_all_append: "enqueue_all gs queue = queue @ gs"
  by (induction gs arbitrary: queue) simp_all

lemma for_each_hole_eq:
  "for_each_hole cs holes_acc queue = (holes_acc @ map positions cs, queue @ grandchildren cs)"
  by (induction cs arbitrary: holes_acc queue) (simp_all add: grandchildren_def enqueue_all_append)

lemma size_grandchildren: "size_list size (grandchildren cs) \<le> size_list size cs"
proof (induction cs)
  case Nil
  show ?case by (simp add: grandchildren_def)
next
  case (Cons a cs)
  have "size_list size (case holes a of None \<Rightarrow> [] | Some gs \<Rightarrow> gs) \<le> Suc (size a)"
    by (cases a) (auto split: option.splits)
  with Cons show ?case by (simp add: grandchildren_def)
qed

lemma size_children:
  "size_list size (grandchildren (case holes n of None \<Rightarrow> [] | Some hs \<Rightarrow> hs)) < size n"
  using size_grandchildren [of "case holes n of None \<Rightarrow> [] | Some hs \<Rightarrow> hs"]
  by (cases n) (auto simp: grandchildren_def split: option.splits)

text \<open>
  The \<open>while\<close> loop of \<open>configureFromPolygonHierarchy\<close>, on its two local variables, the
  queue and \<open>polygons\<close>. \<open>eliminateHoles\<close> is \<open>PolygonPipeline.eliminateHoles\<close>, which
  this file only calls. It is taken as a function that returns a ring: what is proved is
  what \<open>Polygon.js\<close> does around a call that returns, and an error that comes out of
  the hole elimination itself is not part of it.
\<close>

function flatten_loop ::
  "('p list \<Rightarrow> 'p list list \<Rightarrow> 'p list) \<Rightarrow> 'p node list \<Rightarrow> 'p list list
     \<Rightarrow> error + 'p list list" where
  "flatten_loop eliminateHoles [] polygons = Inr polygons"
| "flatten_loop eliminateHoles (outerNode # queue) polygons =
     (let outerRing = positions outerNode in
      if length outerRing < 3
      then Inl (DeveloperError ''At least three positions are required.'')
      else
        let children = (case holes outerNode of None \<Rightarrow> [] | Some hs \<Rightarrow> hs);
            numChildren = length children in
        if numChildren = 0
        then flatten_loop eliminateHoles queue (polygons @ [positions outerNode])
        else
          (case for_each_hole children [] queue of
             (holes_acc, queue') \<Rightarrow>
               flatten_loop eliminateHoles queue'
                 (polygons @ [eliminateHoles outerRing holes_acc])))"
  by pat_completeness auto
termination
proof (relation "measure (\<lambda>(e, q, p). size_list size q)")
  show "wf (measure (\<lambda>(e, q, p). size_list size q))" by simp
next
  fix eliminateHoles :: "'p list \<Rightarrow> 'p list list \<Rightarrow> 'p list"
    and outerNode :: "'p node" and queue :: "'p node list" and polygons :: "'p list list"
  show "((eliminateHoles, queue, polygons @ [positions outerNode]),
         (eliminateHoles, outerNode # queue, polygons))
        \<in> measure (\<lambda>(e, q, p). size_list size q)"
    by simp
next
  fix eliminateHoles :: "'p list \<Rightarrow> 'p list list \<Rightarrow> 'p list"
    and outerNode :: "'p node" and queue queue' :: "'p node list"
    and polygons holes_acc :: "'p list list" and outerRing children
  assume "children = (case holes outerNode of None \<Rightarrow> [] | Some hs \<Rightarrow> hs)"
    and "(holes_acc, queue') = for_each_hole children [] queue"
  then have "queue' = queue @ grandchildren (case holes outerNode of None \<Rightarrow> [] | Some hs \<Rightarrow> hs)"
    by (simp add: for_each_hole_eq)
  then show "((eliminateHoles, queue', polygons @ [eliminateHoles outerRing holes_acc]),
         (eliminateHoles, outerNode # queue, polygons))
        \<in> measure (\<lambda>(e, q, p). size_list size q)"
    using size_children [of outerNode] by simp
qed

definition configureFromPolygonHierarchy ::
  "('p list \<Rightarrow> 'p list list \<Rightarrow> 'p list) \<Rightarrow> 'p node \<Rightarrow> 'p polygon
     \<Rightarrow> (unit, 'p polygon) outcome" where
  "configureFromPolygonHierarchy eliminateHoles hierarchy this =
     (case flatten_loop eliminateHoles [hierarchy] [] of
        Inl e \<Rightarrow> Throws e this
      | Inr polygons \<Rightarrow>
          Returns ()
            (this\<lparr> priv_positions := None,
                   priv_polygonHierarchy := Some polygons,
                   priv_createPrimitive := True \<rparr>))"

section \<open>The primitive and the frame update\<close>

text \<open>
  What \<open>update\<close> and \<open>destroy\<close> do to the objects they do not own is recorded as a trace
  of events, oldest first: the construction of a \<open>Primitive\<close> (its fresh reference, the
  options of its \<open>PolygonGeometry\<close> and the \<open>aboveGround\<close> flag of its appearance), the
  call of its \<open>destroy\<close>, the assignment of its \<open>appearance.material\<close> and the call of
  its \<open>update\<close> with the arguments \<open>(context, frameState, commandList)\<close>. The
  \<open>pickData\<close> of the geometry instance is the polygon itself and is not recorded. A new
  object takes the reference \<open>next_ref\<close> of the world.
\<close>

datatype vertex_format = EllipsoidSurfaceAppearance_VERTEX_FORMAT

record 'p PolygonGeometry =
  geom_positions :: "'p list option"
  geom_polygonHierarchy :: "'p list list option"
  geom_height :: number
  geom_vertexFormat :: vertex_format
  geom_stRotation :: "number option"
  geom_ellipsoid :: "ref option"
  geom_granularity :: number

type_synonym render_args = "ref \<times> ref \<times> ref"

datatype 'p event =
    NewPrimitive ref "'p PolygonGeometry" bool
  | PrimitiveDestroy ref
  | AssignMaterial ref "ref option"
  | PrimitiveUpdate ref render_args

record 'p world =
  trace :: "'p event list"
  next_ref :: ref

text \<open>
  \<open>this._primitive = this._primitive && this._primitive.destroy();\<close> where the
  primitive's \<open>destroy\<close> returns \<open>undefined\<close>.
\<close>

definition destroy_primitive :: "'p world \<times> 'p polygon \<Rightarrow> 'p world \<times> 'p polygon" where
  "destroy_primitive st =
     (case priv_primitive (snd st) of
        None \<Rightarrow> st
      | Some p \<Rightarrow>
          ((fst st)\<lparr> trace := trace (fst st) @ [PrimitiveDestroy p] \<rparr>,
           (snd st)\<lparr> priv_primitive := None \<rparr>))"

text \<open>Lines 295 to 313: the geometry instance and the new \<open>Primitive\<close>.\<close>

definition new_geometry :: "'p polygon \<Rightarrow> 'p PolygonGeometry" where
  "new_geometry this =
     \<lparr> geom_positions = priv_positions this,
       geom_polygonHierarchy = priv_polygonHierarchy this,
       geom_height = height this,
       geom_vertexFormat = EllipsoidSurfaceAppearance_VERTEX_FORMAT,
       geom_stRotation = textureRotationAngle this,
       geom_ellipsoid = ellipsoid this,
       geom_granularity = granularity this \<rparr>"

definition create_primitive :: "'p world \<times> 'p polygon \<Rightarrow> 'p world \<times> 'p polygon" where
  "create_primitive st =
     (let w = fst st; this = snd st; p = next_ref w in
      (w\<lparr> trace := trace w @
                      [NewPrimitive p (new_geometry this) (js_greater (height this) (Num 0))],
           next_ref := Suc p \<rparr>,
       this\<lparr> priv_primitive := Some p \<rparr>))"

text \<open>Lines 316 and 317: the material is assigned and the primitive updated.\<close>

definition render ::
  "render_args \<Rightarrow> 'p world \<times> 'p polygon \<Rightarrow> (unit, 'p world \<times> 'p polygon) outcome" where
  "render args st =
     (case priv_primitive (snd st) of
        None \<Rightarrow> Throws TypeError st
      | Some p \<Rightarrow>
          Returns ()
            ((fst st)\<lparr> trace := trace (fst st) @
                 [AssignMaterial p (material (snd st)), PrimitiveUpdate p args] \<rparr>,
             snd st))"

text \<open>The condition of the \<open>if\<close> at lines 277 to 281.\<close>

definition dirty :: "'p polygon \<Rightarrow> bool" where
  "dirty this =
     (priv_createPrimitive this \<or>
      priv_ellipsoid this \<noteq> ellipsoid this \<or>
      strict_not_equals (priv_granularity this) (Some (granularity this)) \<or>
      strict_not_equals (priv_height this) (Some (height this)) \<or>
      strict_not_equals (priv_textureRotationAngle this) (textureRotationAngle this))"

text \<open>Lines 283 to 287: the snapshot of the fields the geometry depends on.\<close>

definition snapshot :: "'p polygon \<Rightarrow> 'p polygon" where
  "snapshot this =
     this\<lparr> priv_createPrimitive := False,
           priv_ellipsoid := ellipsoid this,
           priv_granularity := Some (granularity this),
           priv_height := Some (height this),
           priv_textureRotationAngle := textureRotationAngle this \<rparr>"

definition update ::
  "render_args \<Rightarrow> 'p world \<times> 'p polygon \<Rightarrow> (unit, 'p world \<times> 'p polygon) outcome" where
  "update args st =
     (let this = snd st in
      if ellipsoid this = None
      then Throws (DeveloperError ''this.ellipsoid must be defined.'') st
      else if material this = None
      then Throws (DeveloperError ''this.material must be defined.'') st
      else if js_less (granularity this) (Num 0)
      then Throws (DeveloperError
             ''this.granularity and scene2D/scene3D overrides must be greater than zero.'') st
      else if \<not> show_flag this then Returns () st
      else if \<not> priv_createPrimitive this \<and> \<not> defined (priv_primitive this)
      then Returns () st
      else if dirty this
      then
        (let st1 = destroy_primitive (fst st, snapshot this) in
         if \<not> defined (priv_positions (snd st1)) \<and> \<not> defined (priv_polygonHierarchy (snd st1))
         then Returns () st1
         else render args (create_primitive st1))
      else render args st)"

text \<open>The source's \<open>isDestroyed\<close> returns \<open>false\<close>.\<close>

definition isDestroyed :: "'p polygon \<Rightarrow> bool" where
  "isDestroyed this = False"

text \<open>
  Modelled from the spec: \<open>destroyObject\<close> of \<open>Core/destroyObject\<close>, which \<open>destroy\<close>
  calls and whose code is not part of the sources at hand. By the specification and by the
  documentation of \<open>destroy\<close> and \<open>isDestroyed\<close>, it marks the object as destroyed, after
  which \<open>isDestroyed\<close> answers \<open>true\<close> and every other function of the object throws
  \<open>This object was destroyed, i.e., destroy() was called.\<close>; it returns \<open>undefined\<close>.
\<close>

definition destroyObject :: "'p polygon \<Rightarrow> 'p polygon" where
  "destroyObject this = this\<lparr> destroyed := True \<rparr>"

definition destroy :: "'p world \<times> 'p polygon \<Rightarrow> (unit, 'p world \<times> 'p polygon) outcome" where
  "destroy st =
     (let st1 = destroy_primitive st in
      Returns () (fst st1, destroyObject (snd st1)))"

text \<open>
  Modelled from the spec: a call of a method on the object. On an object that
  \<open>destroyObject\<close> has marked, \<open>isDestroyed\<close> returns \<open>true\<close> and every other method
  throws; otherwise the function of the source runs.
\<close>

datatype 'p method_call =
    Call_getPositions
  | Call_setPositions "'p list option"
  | Call_configureFromPolygonHierarchy "'p node"
  | Call_update render_args
  | Call_isDestroyed
  | Call_destroy

datatype 'p retval = Undefined | Positions "'p list option" | Boolean bool

definition lift_this ::
  "'p world \<Rightarrow> (unit, 'p polygon) outcome \<Rightarrow> ('p retval, 'p world \<times> 'p polygon) outcome" where
  "lift_this w r = (case r of Returns _ this \<Rightarrow> Returns Undefined (w, this)
                            | Throws e this \<Rightarrow> Throws e (w, this))"

definition lift_unit ::
  "(unit, 'p world \<times> 'p polygon) outcome \<Rightarrow> ('p retval, 'p world \<times> 'p polygon) outcome" where
  "lift_unit r = (case r of Returns _ st \<Rightarrow> Returns Undefined st | Throws e st \<Rightarrow> Throws e st)"

fun invoke ::
  "('p list \<Rightarrow> 'p list list \<Rightarrow> 'p list) \<Rightarrow> 'p method_call \<Rightarrow> 'p world \<times> 'p polygon
     \<Rightarrow> ('p retval, 'p world \<times> 'p polygon) outcome" where
  "invoke eliminateHoles Call_isDestroyed st =
     Returns (Boolean (if destroyed (snd st) then True else isDestroyed (snd st))) st"
| "invoke eliminateHoles c st =
     (if destroyed (snd st) then Throws UseAfterDestroy st
      else (case c of
              Call_getPositions \<Rightarrow> Returns (Positions (getPositions (snd st))) st
            | Call_setPositions ps \<Rightarrow> lift_this (fst st) (setPositions ps (snd st))
            | Call_configureFromPolygonHierarchy h \<Rightarrow>
                lift_this (fst st) (configureFromPolygonHierarchy eliminateHoles h (snd st))
            | Call_update args \<Rightarrow> lift_unit (update args st)
            | Call_isDestroyed \<Rightarrow> Returns (Boolean (isDestroyed (snd st))) st
            | Call_destroy \<Rightarrow> lift_unit (destroy st)))"

section \<open>Auxiliary notions for the statements\<close>

text \<open>
  The holes of a node as a list, the order in which the loop dequeues nodes when it runs to
  its end, and the loop that one dequeued node contributes to \<open>polygons\<close>.
\<close>

definition children :: "'p node \<Rightarrow> 'p node list" where
  "children n = (case holes n of None \<Rightarrow> [] | Some hs \<Rightarrow> hs)"

function visited :: "'p node list \<Rightarrow> 'p node list" where
  "visited [] = []"
| "visited (n # queue) = n # visited (queue @ grandchildren (children n))"
  by pat_completeness auto
termination
proof (relation "measure (size_list size)")
  show "wf (measure (size_list size))" by simp
next
  fix n :: "'p node" and queue :: "'p node list"
  show "(queue @ grandchildren (children n), n # queue) \<in> measure (size_list size)"
    using size_children [of n] by (simp add: children_def)
qed

definition flat_loop ::
  "('p list \<Rightarrow> 'p list list \<Rightarrow> 'p list) \<Rightarrow> 'p node \<Rightarrow> 'p list" where
  "flat_loop eliminateHoles n =
     (if children n = [] then positions n
      else eliminateHoles (positions n) (map positions (children n)))"

text \<open>
  The number of primitives a trace constructs, the event with which a polygon gives up the
  primitive it holds, and a run of frames one after the other.
\<close>

fun is_build :: "'p event \<Rightarrow> bool" where
  "is_build (NewPrimitive p g a) = True"
| "is_build _ = False"

definition builds :: "'p event list \<Rightarrow> nat" where
  "builds evs = length (filter is_build evs)"

definition disposal :: "'p polygon \<Rightarrow> 'p event list" where
  "disposal this = (case priv_primitive this of None \<Rightarrow> [] | Some p \<Rightarrow> [PrimitiveDestroy p])"




definition valid :: "'p polygon \<Rightarrow> bool" where
  "valid this = (ellipsoid this \<noteq> None \<and> material this \<noteq> None \<and>
                 \<not> js_less (granularity this) (Num 0))"

definition no_NaN :: "'p polygon \<Rightarrow> bool" where
  "no_NaN this = (granularity this \<noteq> NaN \<and> height this \<noteq> NaN \<and>
                  textureRotationAngle this \<noteq> Some NaN)"




text \<open>
  Concrete inputs: a polygon made by the constructor without options, points that are
  numbers, a world in which nothing has happened yet, and a stand-in for the hole
  elimination that appends the holes to the outer ring.
\<close>

definition example_polygon :: "nat polygon" where
  "example_polygon = Polygon 0 1 (Num (1745329 / 100000000)) None"

definition example_world :: "nat world" where
  "example_world = \<lparr> trace = [], next_ref = 2 \<rparr>"

definition concat_rings :: "nat list \<Rightarrow> nat list list \<Rightarrow> nat list" where
  "concat_rings outerRing hs = outerRing @ concat hs"

text \<open>
  The example polygon after \<open>setPositions\<close> with a triangle, and the world and the
  polygon after the first frame, which constructs the primitive with the reference 2.
\<close>

definition example_configured :: "nat polygon" where
  "example_configured =
     example_polygon\<lparr> priv_positions := Some [1, 2, 3], priv_polygonHierarchy := None,
                      priv_createPrimitive := True \<rparr>"

definition example_built_world :: "nat world" where
  "example_built_world =
     \<lparr> trace = [NewPrimitive 2 (new_geometry example_configured) False,
                AssignMaterial 2 (Some 1), PrimitiveUpdate 2 (7, 8, 9)],
       next_ref = 3 \<rparr>"

definition example_built :: "nat polygon" where
  "example_built = (snapshot example_configured)\<lparr> priv_primitive := Some 2 \<rparr>"

text \<open>
  The example polygon after \<open>configureFromPolygonHierarchy\<close> with a triangle that has a
  triangular hole, under the stand-in for the hole elimination.
\<close>

definition example_hierarchy_polygon :: "nat polygon" where
  "example_hierarchy_polygon =
     example_polygon\<lparr> priv_positions := None, priv_polygonHierarchy := Some [[1, 2, 3, 4, 5, 6]],
                      priv_createPrimitive := True \<rparr>"

section \<open>What one frame does\<close>

lemma update_rebuild:
  assumes "ellipsoid this \<noteq> None" "material this \<noteq> None"
    "\<not> js_less (granularity this) (Num 0)" "show_flag this"
    "priv_createPrimitive this \<or> priv_primitive this \<noteq> None" "dirty this"
    "priv_positions this \<noteq> None \<or> priv_polygonHierarchy this \<noteq> None"
  shows "update args (w, this) =
     Returns ()
       (w\<lparr> trace := trace w @ disposal this @
              [NewPrimitive (next_ref w) (new_geometry this) (js_greater (height this) (Num 0)),
               AssignMaterial (next_ref w) (material this),
               PrimitiveUpdate (next_ref w) args],
            next_ref := Suc (next_ref w) \<rparr>,
        (snapshot this)\<lparr> priv_primitive := Some (next_ref w) \<rparr>)"
  using assms
  by (cases "priv_primitive this")
     (auto simp: update_def destroy_primitive_def defined_def snapshot_def create_primitive_def
        render_def new_geometry_def disposal_def Let_def)


lemma update_cleared:
  assumes "ellipsoid this \<noteq> None" "material this \<noteq> None"
    "\<not> js_less (granularity this) (Num 0)" "show_flag this"
    "priv_createPrimitive this \<or> priv_primitive this \<noteq> None" "dirty this"
    "priv_positions this = None" "priv_polygonHierarchy this = None"
  shows "update args (w, this) =
     Returns () (w\<lparr> trace := trace w @ disposal this \<rparr>, (snapshot this)\<lparr> priv_primitive := None \<rparr>)"
  using assms
  by (cases "priv_primitive this")
     (auto simp: update_def destroy_primitive_def defined_def snapshot_def disposal_def Let_def)




lemma strict_not_equals_value:
  "b \<noteq> Some NaN \<Longrightarrow> strict_not_equals a b \<longleftrightarrow> a \<noteq> b"
  by (cases "(a, b)" rule: strict_not_equals.cases) auto


lemma update_validates_first:
  assumes "ellipsoid this = None \<or> material this = None \<or> js_less (granularity this) (Num 0)"
  shows "\<exists>e. update args (w, this) = Throws e (w, this) \<and> is_InvariantViolation e"
  using assms by (auto simp: update_def)











lemma example_configure:
  "configureFromPolygonHierarchy concat_rings (Node [1, 2, 3] (Some [Node [4, 5, 6] None]))
     example_polygon = Returns () example_hierarchy_polygon"
  by (simp add: configureFromPolygonHierarchy_def example_hierarchy_polygon_def concat_rings_def)

lemmas example_defs =
  example_polygon_def example_world_def example_configured_def example_built_world_def
  example_built_def Polygon_def defaultValue_def EMPTY_OBJECT_def

lemma example_setPositions:
  "setPositions (Some [1, 2, 3]) example_polygon = Returns () example_configured"
  by (simp add: setPositions_def example_defs)


lemma example_built_facts:
  "valid example_built" "show_flag example_built" "priv_primitive example_built = Some 2"
  "\<not> dirty example_built" "priv_positions example_built = Some [1, 2, 3]"
  "no_NaN example_built" "no_NaN example_configured" "ellipsoid example_built = Some 0"
  "material example_built = Some 1" "textureRotationAngle example_built = None"
  by (simp_all add: example_defs valid_def dirty_def snapshot_def no_NaN_def)

lemma example_built_values:
  "disposal example_built = [PrimitiveDestroy 2]" "next_ref example_built_world = 3"
  "height example_built = Num 0" "js_greater (Num 0) (Num 0) = False"
  "new_geometry example_built = new_geometry example_configured"
  by (simp_all add: example_defs disposal_def snapshot_def js_greater_def new_geometry_def)

section \<open>What the flattening loop computes\<close>

text \<open>
  The loop throws exactly when one of the nodes it would dequeue has fewer than three
  positions, and otherwise appends one loop for each dequeued node, in that order.
\<close>

lemma flatten_loop_visited:
  "flatten_loop eliminateHoles queue polygons =
     (if list_ex (\<lambda>n. length (positions n) < 3) (visited queue)
      then Inl ConfigurationError
      else Inr (polygons @ map (flat_loop eliminateHoles) (visited queue)))"
proof (induction eliminateHoles queue polygons rule: flatten_loop.induct)
  case (1 eliminateHoles polygons)
  show ?case by simp
next
  case (2 eliminateHoles outerNode queue polygons)
  show ?case
  proof (cases "length (positions outerNode) < 3")
    case True
    then show ?thesis by (simp add: ConfigurationError_def)
  next
    case long: False
    show ?thesis
    proof (cases "children outerNode = []")
      case True
      with long 2(1) [OF refl long refl refl] show ?thesis
        by (simp add: children_def flat_loop_def grandchildren_def)
    next
      case False
      have "flatten_loop eliminateHoles (queue @ grandchildren (children outerNode))
              (polygons @ [eliminateHoles (positions outerNode)
                             (map positions (children outerNode))]) =
            (if list_ex (\<lambda>n. length (positions n) < 3)
                  (visited (queue @ grandchildren (children outerNode)))
             then Inl ConfigurationError
             else Inr ((polygons @ [eliminateHoles (positions outerNode)
                                      (map positions (children outerNode))]) @
                       map (flat_loop eliminateHoles)
                         (visited (queue @ grandchildren (children outerNode)))))"
        using long False
          2(2) [of "positions outerNode" "children outerNode" "length (children outerNode)"
                  "map positions (children outerNode)"
                  "queue @ grandchildren (children outerNode)"]
        by (simp add: children_def for_each_hole_eq)
      with long False show ?thesis
        by (simp add: children_def flat_loop_def for_each_hole_eq)
    qed
  qed
qed

lemma visited_ring_checked:
  assumes "\<exists>n \<in> set (visited [hierarchy]). length (positions n) < 3"
  shows "configureFromPolygonHierarchy eliminateHoles hierarchy this =
           Throws ConfigurationError this"
  using assms
  by (simp add: configureFromPolygonHierarchy_def flatten_loop_visited list_ex_iff)

text \<open>
  The loop itself never measures the rings of the holes: for a root of three positions or
  more whose holes hold no further nodes it stores what \<open>eliminateHoles\<close> returns for
  the root and the rings of the holes, of whatever length.
\<close>

lemma hole_rings_unchecked:
  assumes "3 \<le> length R" "hs \<noteq> []" "grandchildren hs = []"
  shows "configureFromPolygonHierarchy eliminateHoles (Node R (Some hs)) this =
           Returns ()
             (this\<lparr> priv_positions := None,
                    priv_polygonHierarchy := Some [eliminateHoles R (map positions hs)],
                    priv_createPrimitive := True \<rparr>)"
  using assms
  by (simp add: configureFromPolygonHierarchy_def flatten_loop_visited children_def flat_loop_def)

section \<open>The claims\<close>

text \<open>
  C1. The claim: a hierarchy in which some ring, at any depth and also the ring of a hole
  node, has fewer than three points makes \<open>configureFromPolygonHierarchy\<close> throw the
  error of too few positions. The code measures the ring of each node it dequeues, and it
  dequeues the root and the holes of holes, never a hole itself, whose positions go to
  \<open>eliminateHoles\<close> unmeasured. So for a triangle with a hole of two distinct points
  nothing is thrown by the loop, and what \<open>eliminateHoles\<close> returns for the triangle and
  the two points is stored as the one polygon.
\<close>

theorem two_point_hole_not_checked:
  "e \<noteq> f \<longrightarrow>
   configureFromPolygonHierarchy eliminateHoles (Node [a, b, c] (Some [Node [e, f] None])) this =
     Returns ()
       (this\<lparr> priv_positions := None,
              priv_polygonHierarchy := Some [eliminateHoles [a, b, c] [[e, f]]],
              priv_createPrimitive := True \<rparr>)"
  by (simp add: configureFromPolygonHierarchy_def)

theorem two_point_hole_not_checked_witness:
  "(4::nat) \<noteq> 5 \<and>
   configureFromPolygonHierarchy concat_rings (Node [1, 2, 3] (Some [Node [4, 5] None]))
       example_polygon =
     Returns ()
       (example_polygon\<lparr> priv_positions := None,
              priv_polygonHierarchy := Some [[1, 2, 3, 4, 5]],
              priv_createPrimitive := True \<rparr>)"
  using two_point_hole_not_checked [of 4 5 concat_rings 1 2 3 example_polygon]
  by (simp add: concat_rings_def)

text \<open>
  C2. The claim: \<open>update\<close> throws whenever the granularity is not greater than zero,
  zero included. The test of the code is \<open>this.granularity < 0.0\<close>, under a message that
  says the granularity must be greater than zero: with the granularity 0 the frame goes
  on and constructs a geometry of granularity 0. (That an undefined ellipsoid or material
  or a negative granularity throws, and before the test of \<open>show\<close>, is the lemma
  \<open>update_validates_first\<close>.)
\<close>

theorem granularity_zero_accepted:
  "update (7, 8, 9) (example_world, example_configured\<lparr> granularity := Num 0 \<rparr>) =
     Returns ()
       (\<lparr> trace = [NewPrimitive 2 (new_geometry (example_configured\<lparr> granularity := Num 0 \<rparr>)) False,
                  AssignMaterial 2 (Some 1), PrimitiveUpdate 2 (7, 8, 9)],
          next_ref = 3 \<rparr>,
        (snapshot (example_configured\<lparr> granularity := Num 0 \<rparr>))\<lparr> priv_primitive := Some 2 \<rparr>) \<and>
   geom_granularity (new_geometry (example_configured\<lparr> granularity := Num 0 \<rparr>)) = Num 0"
  by (simp add: example_defs update_def dirty_def defined_def destroy_primitive_def snapshot_def
      create_primitive_def render_def new_geometry_def js_greater_def)

text \<open>
  C3. The claim: \<open>setPositions\<close> throws if and only if the list is non-empty and has
  fewer than three entries, so that an empty list is accepted. In the code only
  \<open>undefined\<close> passes the test: the empty list has length 0, which is less than 3.
\<close>

theorem setPositions_empty_list_rejected:
  "setPositions (Some []) example_polygon = Throws ConfigurationError example_polygon"
  by (simp add: setPositions_def ConfigurationError_def)

text \<open>
  C3, amended. \<open>setPositions\<close> throws if and only if the positions are defined and fewer
  than three, and what it throws then is the error of too few positions. With
  \<open>undefined\<close> it succeeds and stores no boundary; the next frame of a shown polygon
  with an ellipsoid, a material and a granularity that is not negative then gives up the
  primitive it held, if any, and builds nothing.
\<close>

theorem setPositions_throws_iff:
  "((\<exists>e this'. setPositions ps this = Throws e this') \<longleftrightarrow>
      (\<exists>l. ps = Some l \<and> length l < 3)) \<and>
   (\<forall>e this'. setPositions ps this = Throws e this' \<longrightarrow> e = ConfigurationError) \<and>
   setPositions None this =
     Returns () (this\<lparr> priv_positions := None, priv_polygonHierarchy := None,
                       priv_createPrimitive := True \<rparr>) \<and>
   (ellipsoid this \<noteq> None \<and> material this \<noteq> None \<and>
    \<not> js_less (granularity this) (Num 0) \<and> show_flag this \<longrightarrow>
    (\<exists>w' this'.
       update args (w, this\<lparr> priv_positions := None, priv_polygonHierarchy := None,
                             priv_createPrimitive := True \<rparr>) = Returns () (w', this') \<and>
       trace w' = trace w @ disposal this \<and> priv_primitive this' = None))"
proof -
  have "ellipsoid this \<noteq> None \<and> material this \<noteq> None \<and>
        \<not> js_less (granularity this) (Num 0) \<and> show_flag this \<Longrightarrow>
        update args (w, this\<lparr> priv_positions := None, priv_polygonHierarchy := None,
                             priv_createPrimitive := True \<rparr>) =
          Returns () (w\<lparr> trace := trace w @ disposal this \<rparr>,
            (snapshot (this\<lparr> priv_positions := None, priv_polygonHierarchy := None,
                             priv_createPrimitive := True \<rparr>))\<lparr> priv_primitive := None \<rparr>)"
    using update_cleared [of "this\<lparr> priv_positions := None, priv_polygonHierarchy := None,
                             priv_createPrimitive := True \<rparr>" args w]
    by (simp add: dirty_def disposal_def)
  then show ?thesis
    by (auto simp: setPositions_def ConfigurationError_def split: option.splits)
qed

theorem setPositions_throws_iff_witness:
  "(\<exists>e this'. setPositions (Some [1, 2]) example_polygon = Throws e this') \<and>
   setPositions None example_polygon =
     Returns () (example_polygon\<lparr> priv_positions := None, priv_polygonHierarchy := None,
                       priv_createPrimitive := True \<rparr>) \<and>
   (\<exists>w' this'.
       update (7, 8, 9) (example_world, example_polygon\<lparr> priv_positions := None,
            priv_polygonHierarchy := None, priv_createPrimitive := True \<rparr>)
          = Returns () (w', this') \<and>
       trace w' = trace example_world @ disposal example_polygon \<and> priv_primitive this' = None)"
proof -
  have "ellipsoid example_polygon \<noteq> None \<and> material example_polygon \<noteq> None \<and>
    \<not> js_less (granularity example_polygon) (Num 0) \<and> show_flag example_polygon"
    by (simp add: example_polygon_def Polygon_def defaultValue_def EMPTY_OBJECT_def)
  moreover have "\<exists>l. Some [1, 2::nat] = Some l \<and> length l < 3" by simp
  ultimately show ?thesis
    using setPositions_throws_iff [of "Some [1, 2]" example_polygon "(7, 8, 9)" example_world]
    by blast
qed

text \<open>
  C4. For the hierarchy with outer ring \<open>[A, B, C, D]\<close> and one hole \<open>[E, F, G]\<close> the
  stored set is the single loop that \<open>eliminateHoles\<close> returns for the ring and the list
  of that one hole. For an outer ring \<open>R\<close> with one hole \<open>H\<close> that holds one island \<open>I\<close>
  without holes of its own, the stored set is the merge of \<open>R\<close> with \<open>[H]\<close> followed by
  \<open>I\<close> as it is; \<open>R\<close> and \<open>I\<close> are rings, of three points or more.
\<close>

theorem flatten_examples:
  "configureFromPolygonHierarchy eliminateHoles
       (Node [A, B, C, D] (Some [Node [E, F, G] None])) this =
     Returns ()
       (this\<lparr> priv_positions := None,
              priv_polygonHierarchy := Some [eliminateHoles [A, B, C, D] [[E, F, G]]],
              priv_createPrimitive := True \<rparr>) \<and>
   (3 \<le> length R \<and> 3 \<le> length I \<and> (hs = None \<or> hs = Some []) \<longrightarrow>
    configureFromPolygonHierarchy eliminateHoles
       (Node R (Some [Node H (Some [Node I hs])])) this =
     Returns ()
       (this\<lparr> priv_positions := None,
              priv_polygonHierarchy := Some [eliminateHoles R [H], I],
              priv_createPrimitive := True \<rparr>))"
  by (auto simp: configureFromPolygonHierarchy_def)

theorem flatten_examples_witness:
  "configureFromPolygonHierarchy concat_rings
       (Node [1, 2, 3, 4] (Some [Node [5, 6, 7] None])) example_polygon =
     Returns ()
       (example_polygon\<lparr> priv_positions := None,
              priv_polygonHierarchy := Some [concat_rings [1, 2, 3, 4] [[5, 6, 7]]],
              priv_createPrimitive := True \<rparr>) \<and>
   configureFromPolygonHierarchy concat_rings
       (Node [1, 2, 3] (Some [Node [4, 5, 6] (Some [Node [7, 8, 9] None])])) example_polygon =
     Returns ()
       (example_polygon\<lparr> priv_positions := None,
              priv_polygonHierarchy := Some [concat_rings [1, 2, 3] [[4, 5, 6]], [7, 8, 9]],
              priv_createPrimitive := True \<rparr>)"
  using flatten_examples [of concat_rings 1 2 3 4 5 6 7 example_polygon
      "[1, 2, 3]" "[7, 8, 9]" None "[4, 5, 6]"]
  by simp


text \<open>
  A frame of a polygon that is not shown returns before it touches the primitive: it
  assigns no material.
\<close>

lemma hidden_tick_assigns_nothing:
  "update (7, 8, 9) (example_built_world, example_built\<lparr> show_flag := False \<rparr>) =
     Returns () (example_built_world, example_built\<lparr> show_flag := False \<rparr>)"
  by (simp add: example_defs update_def snapshot_def)



text \<open>
  C6. \<open>setPositions\<close> with a list of three positions or more sets the rebuild flag
  whatever was stored before, also when the same list was stored and built already. A
  second call before the frame leaves exactly what the last call alone leaves. The next
  frame of a shown polygon that passes the checks then gives up the primitive it held, if
  any, and constructs exactly one primitive, whose geometry has the last list as its
  positions and no hierarchy.
\<close>

theorem setPositions_then_update:
  assumes "3 \<le> length ps" "3 \<le> length ps0"
  shows "setPositions (Some ps) this =
           Returns () (this\<lparr> priv_positions := Some ps, priv_polygonHierarchy := None,
                             priv_createPrimitive := True \<rparr>) \<and>
         (\<exists>this0. setPositions (Some ps0) this = Returns () this0 \<and>
                  setPositions (Some ps) this0 = setPositions (Some ps) this) \<and>
         (valid this \<and> show_flag this \<longrightarrow>
          update args (w, this\<lparr> priv_positions := Some ps, priv_polygonHierarchy := None,
                                priv_createPrimitive := True \<rparr>) =
            Returns ()
              (w\<lparr> trace := trace w @ disposal this @
                     [NewPrimitive (next_ref w)
                        \<lparr> geom_positions = Some ps, geom_polygonHierarchy = None,
                          geom_height = height this,
                          geom_vertexFormat = EllipsoidSurfaceAppearance_VERTEX_FORMAT,
                          geom_stRotation = textureRotationAngle this,
                          geom_ellipsoid = ellipsoid this,
                          geom_granularity = granularity this \<rparr>
                        (js_greater (height this) (Num 0)),
                      AssignMaterial (next_ref w) (material this),
                      PrimitiveUpdate (next_ref w) args],
                   next_ref := Suc (next_ref w) \<rparr>,
               (snapshot this)\<lparr> priv_positions := Some ps, priv_polygonHierarchy := None,
                                priv_primitive := Some (next_ref w) \<rparr>)) \<and>
         builds (disposal this) = 0"
proof -
  let ?this1 = "this\<lparr> priv_positions := Some ps, priv_polygonHierarchy := None,
                      priv_createPrimitive := True \<rparr>"
  have 1: "setPositions (Some ps) this = Returns () ?this1"
    using assms(1) by (simp add: setPositions_def)
  have 2: "setPositions (Some ps0) this =
             Returns () (this\<lparr> priv_positions := Some ps0, priv_polygonHierarchy := None,
                      priv_createPrimitive := True \<rparr>)"
    using assms(2) by (simp add: setPositions_def)
  have 3: "setPositions (Some ps) (this\<lparr> priv_positions := Some ps0,
              priv_polygonHierarchy := None, priv_createPrimitive := True \<rparr>) =
           setPositions (Some ps) this"
    using assms(1) by (simp add: setPositions_def)
  have 4: "update args (w, ?this1) =
     Returns ()
       (w\<lparr> trace := trace w @ disposal ?this1 @
              [NewPrimitive (next_ref w) (new_geometry ?this1) (js_greater (height ?this1) (Num 0)),
               AssignMaterial (next_ref w) (material ?this1),
               PrimitiveUpdate (next_ref w) args],
            next_ref := Suc (next_ref w) \<rparr>,
        (snapshot ?this1)\<lparr> priv_primitive := Some (next_ref w) \<rparr>)"
    if "valid this" "show_flag this"
    using that by (intro update_rebuild) (simp_all add: valid_def dirty_def)
  have 5: "builds (disposal this) = 0"
    by (simp add: builds_def disposal_def split: option.splits)
  from 1 2 3 4 5 show ?thesis
    by (simp add: disposal_def new_geometry_def snapshot_def)
qed

theorem setPositions_then_update_witness:
  "priv_positions example_built = Some [1, 2, 3] \<and>
   setPositions (Some [1, 2, 3]) example_built =
     Returns () (example_built\<lparr> priv_positions := Some [1, 2, 3], priv_polygonHierarchy := None,
                                priv_createPrimitive := True \<rparr>) \<and>
   (\<exists>this0. setPositions (Some [4, 5, 6]) example_built = Returns () this0 \<and>
            setPositions (Some [1, 2, 3]) this0 = setPositions (Some [1, 2, 3]) example_built) \<and>
   update (7, 8, 9)
        (example_built_world,
         example_built\<lparr> priv_positions := Some [1, 2, 3], priv_polygonHierarchy := None,
                         priv_createPrimitive := True \<rparr>) =
     Returns ()
       (example_built_world\<lparr> trace := trace example_built_world @
           [PrimitiveDestroy 2, NewPrimitive 3 (new_geometry example_built) False,
            AssignMaterial 3 (Some 1), PrimitiveUpdate 3 (7, 8, 9)],
          next_ref := 4 \<rparr>,
        (snapshot example_built)\<lparr> priv_positions := Some [1, 2, 3],
           priv_polygonHierarchy := None, priv_primitive := Some 3 \<rparr>)"
proof -
  have len: "3 \<le> length [1, 2, 3::nat]" "3 \<le> length [4, 5, 6::nat]" by simp_all
  have g: "\<lparr> geom_positions = Some [1, 2, 3], geom_polygonHierarchy = None,
             geom_height = height example_built,
             geom_vertexFormat = EllipsoidSurfaceAppearance_VERTEX_FORMAT,
             geom_stRotation = textureRotationAngle example_built,
             geom_ellipsoid = ellipsoid example_built,
             geom_granularity = granularity example_built \<rparr> = new_geometry example_built"
    by (simp add: new_geometry_def example_defs snapshot_def)
  from setPositions_then_update [OF len, of example_built "(7, 8, 9)" example_built_world]
  show ?thesis
    unfolding g by (auto simp add: example_built_values example_built_facts)
qed

text \<open>
  C7. Take a shown polygon that passes the checks, holds a primitive, has a boundary and
  has nothing to rebuild. After an assignment of numbers other than NaN to the
  granularity, the height and the texture rotation angle and of a reference to the
  ellipsoid, the test of \<open>update\<close> finds a change exactly when a number has another
  value or the ellipsoid is another reference. Assigning another ellipsoid object, be
  its radii the same, makes the next frame destroy the primitive and construct exactly
  one new primitive, and so does a change of the texture rotation angle alone.
\<close>

theorem dirty_check_comparisons:
  assumes "valid this" "show_flag this" "priv_primitive this = Some p" "\<not> dirty this"
    "priv_positions this \<noteq> None \<or> priv_polygonHierarchy this \<noteq> None"
  shows "(g \<noteq> NaN \<and> h \<noteq> NaN \<and> t \<noteq> Some NaN \<longrightarrow>
            dirty (this\<lparr> ellipsoid := el, granularity := g, height := h,
                          textureRotationAngle := t \<rparr>) =
              (el \<noteq> ellipsoid this \<or> g \<noteq> granularity this \<or> h \<noteq> height this \<or>
               t \<noteq> textureRotationAngle this)) \<and>
         (ellipsoid this = Some e \<and> e' \<noteq> e \<and> radii e' = radii e \<longrightarrow>
            update args (w, this\<lparr> ellipsoid := Some e' \<rparr>) =
              Returns ()
                (w\<lparr> trace := trace w @
                       [PrimitiveDestroy p,
                        NewPrimitive (next_ref w) (new_geometry (this\<lparr> ellipsoid := Some e' \<rparr>))
                          (js_greater (height this) (Num 0)),
                        AssignMaterial (next_ref w) (material this),
                        PrimitiveUpdate (next_ref w) args],
                     next_ref := Suc (next_ref w) \<rparr>,
                 (snapshot (this\<lparr> ellipsoid := Some e' \<rparr>))\<lparr> priv_primitive := Some (next_ref w) \<rparr>)) \<and>
         (strict_not_equals (textureRotationAngle this) r \<longrightarrow>
            update args (w, this\<lparr> textureRotationAngle := r \<rparr>) =
              Returns ()
                (w\<lparr> trace := trace w @
                       [PrimitiveDestroy p,
                        NewPrimitive (next_ref w) (new_geometry (this\<lparr> textureRotationAngle := r \<rparr>))
                          (js_greater (height this) (Num 0)),
                        AssignMaterial (next_ref w) (material this),
                        PrimitiveUpdate (next_ref w) args],
                     next_ref := Suc (next_ref w) \<rparr>,
                 (snapshot (this\<lparr> textureRotationAngle := r \<rparr>))\<lparr> priv_primitive := Some (next_ref w) \<rparr>))"
proof -
  from assms(4) have clean:
    "\<not> priv_createPrimitive this" "priv_ellipsoid this = ellipsoid this"
    "\<not> strict_not_equals (priv_granularity this) (Some (granularity this))"
    "\<not> strict_not_equals (priv_height this) (Some (height this))"
    "\<not> strict_not_equals (priv_textureRotationAngle this) (textureRotationAngle this)"
    by (simp_all add: dirty_def)
  have eqs: "priv_granularity this = Some (granularity this)"
    "priv_height this = Some (height this)"
    "priv_textureRotationAngle this = textureRotationAngle this"
    using clean(3-5)
    by (cases "(priv_granularity this, Some (granularity this))" rule: strict_not_equals.cases;
        cases "(priv_height this, Some (height this))" rule: strict_not_equals.cases;
        cases "(priv_textureRotationAngle this, textureRotationAngle this)"
          rule: strict_not_equals.cases; simp)+
  have A: "g \<noteq> NaN \<and> h \<noteq> NaN \<and> t \<noteq> Some NaN \<longrightarrow>
            dirty (this\<lparr> ellipsoid := el, granularity := g, height := h,
                          textureRotationAngle := t \<rparr>) =
              (el \<noteq> ellipsoid this \<or> g \<noteq> granularity this \<or> h \<noteq> height this \<or>
               t \<noteq> textureRotationAngle this)"
    using clean(1,2) eqs by (auto simp: dirty_def strict_not_equals_value)
  have B: "ellipsoid this = Some e \<and> e' \<noteq> e \<and> radii e' = radii e \<longrightarrow>
            update args (w, this\<lparr> ellipsoid := Some e' \<rparr>) =
              Returns ()
                (w\<lparr> trace := trace w @
                       [PrimitiveDestroy p,
                        NewPrimitive (next_ref w) (new_geometry (this\<lparr> ellipsoid := Some e' \<rparr>))
                          (js_greater (height this) (Num 0)),
                        AssignMaterial (next_ref w) (material this),
                        PrimitiveUpdate (next_ref w) args],
                     next_ref := Suc (next_ref w) \<rparr>,
                 (snapshot (this\<lparr> ellipsoid := Some e' \<rparr>))\<lparr> priv_primitive := Some (next_ref w) \<rparr>)"
  proof
    assume h: "ellipsoid this = Some e \<and> e' \<noteq> e \<and> radii e' = radii e"
    have "update args (w, this\<lparr> ellipsoid := Some e' \<rparr>) =
       Returns ()
        (w\<lparr> trace := trace w @ disposal (this\<lparr> ellipsoid := Some e' \<rparr>) @
              [NewPrimitive (next_ref w) (new_geometry (this\<lparr> ellipsoid := Some e' \<rparr>))
                 (js_greater (height (this\<lparr> ellipsoid := Some e' \<rparr>)) (Num 0)),
               AssignMaterial (next_ref w) (material (this\<lparr> ellipsoid := Some e' \<rparr>)),
               PrimitiveUpdate (next_ref w) args],
            next_ref := Suc (next_ref w) \<rparr>,
        (snapshot (this\<lparr> ellipsoid := Some e' \<rparr>))\<lparr> priv_primitive := Some (next_ref w) \<rparr>)"
      using assms(1,2,3,5) h clean(2)
      by (intro update_rebuild) (auto simp: valid_def dirty_def)
    then show "update args (w, this\<lparr> ellipsoid := Some e' \<rparr>) =
              Returns ()
                (w\<lparr> trace := trace w @
                       [PrimitiveDestroy p,
                        NewPrimitive (next_ref w) (new_geometry (this\<lparr> ellipsoid := Some e' \<rparr>))
                          (js_greater (height this) (Num 0)),
                        AssignMaterial (next_ref w) (material this),
                        PrimitiveUpdate (next_ref w) args],
                     next_ref := Suc (next_ref w) \<rparr>,
                 (snapshot (this\<lparr> ellipsoid := Some e' \<rparr>))\<lparr> priv_primitive := Some (next_ref w) \<rparr>)"
      using assms(3) by (simp add: disposal_def)
  qed
  have C: "strict_not_equals (textureRotationAngle this) r \<longrightarrow>
            update args (w, this\<lparr> textureRotationAngle := r \<rparr>) =
              Returns ()
                (w\<lparr> trace := trace w @
                       [PrimitiveDestroy p,
                        NewPrimitive (next_ref w) (new_geometry (this\<lparr> textureRotationAngle := r \<rparr>))
                          (js_greater (height this) (Num 0)),
                        AssignMaterial (next_ref w) (material this),
                        PrimitiveUpdate (next_ref w) args],
                     next_ref := Suc (next_ref w) \<rparr>,
                 (snapshot (this\<lparr> textureRotationAngle := r \<rparr>))\<lparr> priv_primitive := Some (next_ref w) \<rparr>)"
  proof
    assume h: "strict_not_equals (textureRotationAngle this) r"
    have "update args (w, this\<lparr> textureRotationAngle := r \<rparr>) =
       Returns ()
        (w\<lparr> trace := trace w @ disposal (this\<lparr> textureRotationAngle := r \<rparr>) @
              [NewPrimitive (next_ref w) (new_geometry (this\<lparr> textureRotationAngle := r \<rparr>))
                 (js_greater (height (this\<lparr> textureRotationAngle := r \<rparr>)) (Num 0)),
               AssignMaterial (next_ref w) (material (this\<lparr> textureRotationAngle := r \<rparr>)),
               PrimitiveUpdate (next_ref w) args],
            next_ref := Suc (next_ref w) \<rparr>,
        (snapshot (this\<lparr> textureRotationAngle := r \<rparr>))\<lparr> priv_primitive := Some (next_ref w) \<rparr>)"
      using assms(1,2,3,5) h eqs(3)
      by (intro update_rebuild) (auto simp: valid_def dirty_def)
    then show "update args (w, this\<lparr> textureRotationAngle := r \<rparr>) =
              Returns ()
                (w\<lparr> trace := trace w @
                       [PrimitiveDestroy p,
                        NewPrimitive (next_ref w) (new_geometry (this\<lparr> textureRotationAngle := r \<rparr>))
                          (js_greater (height this) (Num 0)),
                        AssignMaterial (next_ref w) (material this),
                        PrimitiveUpdate (next_ref w) args],
                     next_ref := Suc (next_ref w) \<rparr>,
                 (snapshot (this\<lparr> textureRotationAngle := r \<rparr>))\<lparr> priv_primitive := Some (next_ref w) \<rparr>)"
      using assms(3) by (simp add: disposal_def)
  qed
  from A B C show ?thesis by blast
qed


theorem dirty_check_comparisons_witness:
  "\<not> dirty (example_built\<lparr> ellipsoid := Some 0, granularity := Num (1745329 / 100000000),
                             height := Num 0, textureRotationAngle := None \<rparr>) \<and>
   dirty (example_built\<lparr> ellipsoid := Some 0, granularity := Num (1745329 / 100000000),
                           height := Num 1, textureRotationAngle := None \<rparr>) \<and>
   update (7, 8, 9) (example_built_world, example_built\<lparr> ellipsoid := Some 7 \<rparr>) =
     Returns ()
       (example_built_world\<lparr> trace := trace example_built_world @
           [PrimitiveDestroy 2,
            NewPrimitive 3 (new_geometry (example_built\<lparr> ellipsoid := Some 7 \<rparr>)) False,
            AssignMaterial 3 (Some 1), PrimitiveUpdate 3 (7, 8, 9)],
          next_ref := 4 \<rparr>,
        (snapshot (example_built\<lparr> ellipsoid := Some 7 \<rparr>))\<lparr> priv_primitive := Some 3 \<rparr>) \<and>
   update (7, 8, 9) (example_built_world, example_built\<lparr> textureRotationAngle := Some (Num 1) \<rparr>) =
     Returns ()
       (example_built_world\<lparr> trace := trace example_built_world @
           [PrimitiveDestroy 2,
            NewPrimitive 3 (new_geometry (example_built\<lparr> textureRotationAngle := Some (Num 1) \<rparr>))
              False,
            AssignMaterial 3 (Some 1), PrimitiveUpdate 3 (7, 8, 9)],
          next_ref := 4 \<rparr>,
        (snapshot (example_built\<lparr> textureRotationAngle := Some (Num 1) \<rparr>))
           \<lparr> priv_primitive := Some 3 \<rparr>)"
proof -
  have b: "priv_positions example_built \<noteq> None \<or> priv_polygonHierarchy example_built \<noteq> None"
    by (simp add: example_built_facts)
  note T = dirty_check_comparisons [OF example_built_facts(1,2,3,4) b]
  have v: "ellipsoid example_built = Some 0" "granularity example_built = Num (1745329 / 100000000)"
    "strict_not_equals (textureRotationAngle example_built) (Some (Num 1))"
    by (simp_all add: example_defs snapshot_def)
  from T [of "Num (1745329 / 100000000)" "Num 0" None "Some 0" 0 7
            "\<lambda>e. (6378137 :: real, 6378137 :: real, 6356752 :: real)" "(7, 8, 9)"
            example_built_world "Some (Num 1)"]
       T [of "Num (1745329 / 100000000)" "Num 1" None "Some 0" 0 7
            "\<lambda>e. (6378137 :: real, 6378137 :: real, 6356752 :: real)" "(7, 8, 9)"
            example_built_world "Some (Num 1)"]
  show ?thesis
    by (simp add: example_built_values example_built_facts v)
qed

text \<open>
  C8. When \<open>setPositions\<close> or \<open>configureFromPolygonHierarchy\<close> throws, the error is the
  one of too few positions and the object is as it was before the call: its positions,
  its flattened hierarchy, its rebuild flag and every other field.
\<close>

theorem setters_strong_exception_safety:
  "(setPositions ps this = Throws e this' \<longrightarrow> e = ConfigurationError \<and> this' = this) \<and>
   (configureFromPolygonHierarchy eliminateHoles hierarchy this = Throws e this' \<longrightarrow>
      e = ConfigurationError \<and> this' = this)"
  by (auto simp: setPositions_def configureFromPolygonHierarchy_def flatten_loop_visited
        ConfigurationError_def split: if_splits)

theorem setters_strong_exception_safety_witness:
  "setPositions (Some [1, 2]) example_polygon = Throws ConfigurationError example_polygon \<and>
   configureFromPolygonHierarchy concat_rings (Node [1, 2] None) example_polygon =
     Throws ConfigurationError example_polygon"
proof -
  obtain e1 s1 where 1: "setPositions (Some [1, 2]) example_polygon = Throws e1 s1"
    by (simp add: setPositions_def)
  obtain e2 s2 where 2: "configureFromPolygonHierarchy concat_rings (Node [1, 2] None)
      example_polygon = Throws e2 s2"
    by (simp add: configureFromPolygonHierarchy_def)
  from 1 2 setters_strong_exception_safety [of "Some [1, 2]" example_polygon e1 s1]
    setters_strong_exception_safety [of _ example_polygon e2 s2 concat_rings "Node [1, 2] None"]
  show ?thesis by simp
qed

text \<open>
  C9. On an object that is not destroyed, \<open>destroy\<close> calls the \<open>destroy\<close> of the
  primitive it holds, once, or of none if it holds none, and leaves the object without a
  primitive and marked as destroyed: \<open>isDestroyed\<close> then returns \<open>true\<close> and every
  other method throws the error of a use after \<open>destroy\<close>, leaving the state as it is.
\<close>

theorem destroy_then_use:
  assumes "\<not> destroyed (snd st)"
  shows "\<exists>w' this'.
           invoke eliminateHoles Call_destroy st = Returns Undefined (w', this') \<and>
           trace w' = trace (fst st) @ disposal (snd st) \<and>
           priv_primitive this' = None \<and>
           invoke eliminateHoles Call_isDestroyed (w', this') =
             Returns (Boolean True) (w', this') \<and>
           (\<forall>c. c \<noteq> Call_isDestroyed \<longrightarrow>
                invoke eliminateHoles c (w', this') = Throws UseAfterDestroy (w', this'))"
proof -
  let ?st1 = "destroy_primitive st"
  let ?w' = "fst ?st1" and ?this' = "destroyObject (snd ?st1)"
  have 1: "invoke eliminateHoles Call_destroy st = Returns Undefined (?w', ?this')"
    using assms by (simp add: destroy_def lift_unit_def Let_def)
  have 2: "trace ?w' = trace (fst st) @ disposal (snd st)"
    by (simp add: destroy_primitive_def disposal_def split: option.splits)
  have 3: "priv_primitive ?this' = None"
    by (simp add: destroy_primitive_def destroyObject_def split: option.splits)
  have d: "destroyed ?this'" by (simp add: destroyObject_def)
  then have 4: "invoke eliminateHoles Call_isDestroyed (?w', ?this') =
             Returns (Boolean True) (?w', ?this')"
    by simp
  have 5: "invoke eliminateHoles c (?w', ?this') = Throws UseAfterDestroy (?w', ?this')"
    if "c \<noteq> Call_isDestroyed" for c
    using that d by (cases c) simp_all
  from 1 2 3 4 5 show ?thesis by blast
qed

theorem destroy_then_use_witness:
  "\<exists>w' this'.
     invoke concat_rings Call_destroy (example_built_world, example_built)
       = Returns Undefined (w', this') \<and>
     trace w' = trace example_built_world @ [PrimitiveDestroy 2] \<and>
     priv_primitive this' = None \<and>
     invoke concat_rings Call_isDestroyed (w', this') = Returns (Boolean True) (w', this') \<and>
     invoke concat_rings (Call_update (7, 8, 9)) (w', this') = Throws UseAfterDestroy (w', this') \<and>
     invoke concat_rings Call_destroy (w', this') = Throws UseAfterDestroy (w', this') \<and>
     invoke concat_rings Call_getPositions (w', this') = Throws UseAfterDestroy (w', this') \<and>
     invoke concat_rings (Call_setPositions (Some [1, 2, 3])) (w', this')
       = Throws UseAfterDestroy (w', this')"
proof -
  have "\<not> destroyed (snd (example_built_world, example_built))"
    by (simp add: example_defs snapshot_def)
  from destroy_then_use [OF this, of concat_rings] obtain w' this' where
    a: "invoke concat_rings Call_destroy (example_built_world, example_built)
          = Returns Undefined (w', this')"
    and b: "trace w' = trace (fst (example_built_world, example_built)) @
                       disposal (snd (example_built_world, example_built))"
    and c: "priv_primitive this' = None"
    and d: "invoke concat_rings Call_isDestroyed (w', this') = Returns (Boolean True) (w', this')"
    and e: "\<forall>c. c \<noteq> Call_isDestroyed \<longrightarrow>
              invoke concat_rings c (w', this') = Throws UseAfterDestroy (w', this')"
    by blast
  from b have b': "trace w' = trace example_built_world @ [PrimitiveDestroy 2]"
    by (simp add: example_built_values)
  from e have e1: "invoke concat_rings (Call_update (7, 8, 9)) (w', this')
      = Throws UseAfterDestroy (w', this')"
    and e2: "invoke concat_rings Call_destroy (w', this') = Throws UseAfterDestroy (w', this')"
    and e3: "invoke concat_rings Call_getPositions (w', this') = Throws UseAfterDestroy (w', this')"
    and e4: "invoke concat_rings (Call_setPositions (Some [1, 2, 3])) (w', this')
      = Throws UseAfterDestroy (w', this')"
    by blast+
  from a b' c d e1 e2 e3 e4 show ?thesis by blast
qed

text \<open>
  C10. Whatever the polygon stores, \<open>setPositions\<close> with \<open>undefined\<close> or with three
  positions or more succeeds, stores the positions and clears the flattened hierarchy,
  and \<open>configureFromPolygonHierarchy\<close> with a hierarchy whose dequeued nodes all have
  three positions or more succeeds, stores the flattened set and clears the positions.
  So after any successful call of either at most one of the two stores is defined, and
  \<open>getPositions\<close> returns \<open>undefined\<close> after a successful
  \<open>configureFromPolygonHierarchy\<close>.
\<close>

theorem boundary_stores_exclusive:
  "((case ps of None \<Rightarrow> True | Some l \<Rightarrow> 3 \<le> length l) \<longrightarrow>
      setPositions ps this =
        Returns () (this\<lparr> priv_positions := ps, priv_polygonHierarchy := None,
                          priv_createPrimitive := True \<rparr>)) \<and>
   (\<not> list_ex (\<lambda>n. length (positions n) < 3) (visited [hierarchy]) \<longrightarrow>
      configureFromPolygonHierarchy eliminateHoles hierarchy this =
        Returns ()
          (this\<lparr> priv_positions := None,
                 priv_polygonHierarchy := Some (map (flat_loop eliminateHoles) (visited [hierarchy])),
                 priv_createPrimitive := True \<rparr>)) \<and>
   (setPositions ps this = Returns () this' \<longrightarrow>
      priv_polygonHierarchy this' = None \<and> getPositions this' = ps) \<and>
   (configureFromPolygonHierarchy eliminateHoles hierarchy this = Returns () this' \<longrightarrow>
      getPositions this' = None \<and> priv_positions this' = None \<and>
      priv_polygonHierarchy this' \<noteq> None)"
  by (auto simp: setPositions_def configureFromPolygonHierarchy_def getPositions_def
        flatten_loop_visited split: if_splits option.splits)

theorem boundary_stores_exclusive_witness:
  "configureFromPolygonHierarchy concat_rings (Node [1, 2, 3] (Some [Node [4, 5, 6] None]))
       example_polygon = Returns () example_hierarchy_polygon \<and>
   priv_polygonHierarchy example_hierarchy_polygon = Some [[1, 2, 3, 4, 5, 6]] \<and>
   setPositions (Some [7, 8, 9]) example_hierarchy_polygon =
     Returns () (example_hierarchy_polygon\<lparr> priv_positions := Some [7, 8, 9],
        priv_polygonHierarchy := None, priv_createPrimitive := True \<rparr>) \<and>
   priv_polygonHierarchy (example_hierarchy_polygon\<lparr> priv_positions := Some [7, 8, 9],
        priv_polygonHierarchy := None, priv_createPrimitive := True \<rparr>) = None \<and>
   priv_positions example_built = Some [1, 2, 3] \<and>
   configureFromPolygonHierarchy concat_rings (Node [1, 2, 3] (Some [Node [4, 5, 6] None]))
       example_built =
     Returns () (example_built\<lparr> priv_positions := None,
        priv_polygonHierarchy := Some [[1, 2, 3, 4, 5, 6]], priv_createPrimitive := True \<rparr>) \<and>
   getPositions (example_built\<lparr> priv_positions := None,
        priv_polygonHierarchy := Some [[1, 2, 3, 4, 5, 6]], priv_createPrimitive := True \<rparr>) = None"
proof -
  let ?h = "Node [1, 2, 3] (Some [Node [4, 5, 6::nat] None])"
  have v: "visited [?h] = [?h]"
    by (simp add: children_def grandchildren_def)
  have f: "map (flat_loop concat_rings) [?h] = [[1, 2, 3, 4, 5, 6]]"
    by (simp add: flat_loop_def children_def concat_rings_def)
  have ok: "\<not> list_ex (\<lambda>n. length (positions n) < 3) (visited [?h])"
    unfolding v by simp
  have long: "case Some [7, 8, 9::nat] of None \<Rightarrow> True | Some l \<Rightarrow> 3 \<le> length l"
    by simp
  from long boundary_stores_exclusive [of "Some [7, 8, 9]" example_hierarchy_polygon]
  have 1: "setPositions (Some [7, 8, 9]) example_hierarchy_polygon =
     Returns () (example_hierarchy_polygon\<lparr> priv_positions := Some [7, 8, 9],
        priv_polygonHierarchy := None, priv_createPrimitive := True \<rparr>)"
    by blast
  from ok boundary_stores_exclusive [of _ example_built ?h concat_rings]
  have "configureFromPolygonHierarchy concat_rings ?h example_built =
     Returns () (example_built\<lparr> priv_positions := None,
        priv_polygonHierarchy := Some (map (flat_loop concat_rings) (visited [?h])),
        priv_createPrimitive := True \<rparr>)"
    by blast
  then have 2: "configureFromPolygonHierarchy concat_rings ?h example_built =
     Returns () (example_built\<lparr> priv_positions := None,
        priv_polygonHierarchy := Some [[1, 2, 3, 4, 5, 6]], priv_createPrimitive := True \<rparr>)"
    unfolding v f .
  from 1 2 example_configure show ?thesis
    by (simp add: getPositions_def example_built_facts example_hierarchy_polygon_def)
qed

end
